theory Spec2Isabelle
  imports Main
begin

section \<open>Python values and exceptions\<close>

text \<open>
  The service is one module, \<open>case 3/main.py\<close>: a start-up part that reads the API key
  and builds the prompt and the chain, and one request handler,
  \<open>recommend_department\<close>. The values below are the Python values the handler sees.
\<close>

text \<open>A Python float, as \<open>json.loads\<close> can produce it (it also reads NaN and Infinity).\<close>

datatype pyfloat = Finite int int | PosInf | NegInf | NaN

text \<open>
  What a JSON parser returns: \<open>None\<close>, a bool, an int, a float, a str, a list or a dict
  with str keys. A dict is an association list read by \<open>map_of\<close>; a Python dict holds every
  key once.
\<close>

datatype json =
    JNull
  | JBool bool
  | JInt int
  | JFloat pyfloat
  | JString string
  | JArray "json list"
  | JObject "(string \<times> json) list"

text \<open>
  The exceptions of the program. The string of a constructor is what \<open>str(e)\<close> gives,
  but for \<open>HTTPException\<close>, which holds \<open>status_code\<close> and \<open>detail\<close>.
  \<open>OtherException\<close> is any other instance of \<open>Exception\<close>; \<open>NonException\<close> is an
  instance of \<open>BaseException\<close> that is no \<open>Exception\<close> (\<open>KeyboardInterrupt\<close>,
  \<open>SystemExit\<close>, \<open>asyncio.CancelledError\<close>), which \<open>except Exception\<close> lets through.
\<close>

datatype exn =
    ValueError string
  | TypeError string
  | KeyError string
  | OutputParserException string
  | ValidationError string
  | HTTPException int string
  | OtherException string
  | NonException string

fun is_OutputParserException :: "exn \<Rightarrow> bool" where
  "is_OutputParserException (OutputParserException m) = True"
| "is_OutputParserException e = False"

fun is_ValidationError :: "exn \<Rightarrow> bool" where
  "is_ValidationError (ValidationError m) = True"
| "is_ValidationError e = False"

fun is_Exception :: "exn \<Rightarrow> bool" where
  "is_Exception (NonException m) = False"
| "is_Exception e = True"

text \<open>A value of the dict \<open>chain_input\<close>, and \<open>str\<close> on it as the template formatter applies it.\<close>

datatype pyval = PyStr string | PyInt int

fun str_nat :: "nat \<Rightarrow> string" where
  "str_nat n = (if n < 10 then [''0123456789'' ! n]
                else str_nat (n div 10) @ [''0123456789'' ! (n mod 10)])"

declare str_nat.simps [simp del]

definition str_int :: "int \<Rightarrow> string" where
  "str_int i = (if i < 0 then CHR ''-'' # str_nat (nat (- i)) else str_nat (nat i))"

fun py_str :: "pyval \<Rightarrow> string" where
  "py_str (PyStr s) = s"
| "py_str (PyInt i) = str_int i"

text \<open>\<open>sep.join(xs)\<close>.\<close>

fun join :: "string \<Rightarrow> string list \<Rightarrow> string" where
  "join sep [] = []"
| "join sep [x] = x"
| "join sep (x # y # ys) = x @ sep @ join sep (y # ys)"

section \<open>The libraries the module calls\<close>

text \<open>
  The handler calls code that is not part of the repository: the hosted model behind
  \<open>ChatGoogleGenerativeAI\<close>, LangChain's \<open>JsonOutputParser\<close>, and the texts that pydantic,
  CPython and Starlette put into their exceptions. They are parameters of the model.
  \<open>'w\<close> is the state of everything outside the process (the provider, the network): a call
  of the model reads and changes it.
\<close>

record 'w libs =
  get_format_instructions :: string
  llm_ainvoke :: "(string \<times> string) list \<Rightarrow> 'w \<Rightarrow> (exn + string) \<times> 'w"
  parser_parse :: "string \<Rightarrow> exn + json"
  validation_error_str :: "(string \<times> json) list \<Rightarrow> string"
  mapping_error_str :: "json \<Rightarrow> string"
  http_exception_str :: "int \<Rightarrow> string \<Rightarrow> string"

text \<open>\<open>str(e)\<close> and \<open>f"{e}"\<close>.\<close>

fun exn_str :: "'w libs \<Rightarrow> exn \<Rightarrow> string" where
  "exn_str L (ValueError m) = m"
| "exn_str L (TypeError m) = m"
| "exn_str L (KeyError m) = m"
| "exn_str L (OutputParserException m) = m"
| "exn_str L (ValidationError m) = m"
| "exn_str L (HTTPException c d) = http_exception_str L c d"
| "exn_str L (OtherException m) = m"
| "exn_str L (NonException m) = m"

section \<open>The request and response models\<close>

record PatientInfo =
  gender :: string
  age :: int
  symptoms :: "string list"

record LLMDepartmentOutput =
  recommended_department :: string

record DepartmentRecommendation =
  recommended_department :: string

text \<open>
  \<open>LLMDepartmentOutput(**raw_response)\<close>. The \<open>**\<close> needs a mapping: anything else is a
  \<open>TypeError\<close> before pydantic runs. pydantic then wants the one required field, a
  \<open>str\<close> (of the values a JSON parser returns only a str passes; no number is turned
  into a str), and ignores every other key.
\<close>

definition LLMDepartmentOutput_init :: "'w libs \<Rightarrow> json \<Rightarrow> exn + LLMDepartmentOutput" where
  "LLMDepartmentOutput_init L raw_response =
     (case raw_response of
        JObject kwargs \<Rightarrow>
          (case map_of kwargs ''recommended_department'' of
             Some (JString s) \<Rightarrow> Inr \<lparr>LLMDepartmentOutput.recommended_department = s\<rparr>
           | _ \<Rightarrow> Inl (ValidationError (validation_error_str L kwargs)))
      | _ \<Rightarrow> Inl (TypeError (mapping_error_str L raw_response)))"

text \<open>The body FastAPI sends for a returned \<open>DepartmentRecommendation\<close> (\<open>response_model\<close>).\<close>

definition model_dump :: "DepartmentRecommendation \<Rightarrow> json" where
  "model_dump r =
     JObject [(''recommended_department'', JString (DepartmentRecommendation.recommended_department r))]"

section \<open>The prompt\<close>

text \<open>\<open>s.replace(c, r)\<close> for a pattern of one character.\<close>

definition replace_char :: "char \<Rightarrow> string \<Rightarrow> string \<Rightarrow> string" where
  "replace_char c r s = concat (map (\<lambda>x. if x = c then r else [x]) s)"

text \<open>
  The formatter of an f-string template (\<open>str.format\<close> with keyword arguments), as
  \<open>ChatPromptTemplate\<close> uses it: \<open>{{\<close> and \<open>}}\<close> stand for one brace, \<open>{name}\<close> for the
  value of \<open>name\<close>, which is copied and not read again. \<open>None\<close> is an exception of the
  formatter: a single \<open>}\<close>, an open field at the end, a name with no value. Fields with a
  conversion, a format or an attribute (\<open>!\<close>, \<open>:\<close>, \<open>.\<close>, \<open>[\<close>) are not modelled and give
  \<open>None\<close> too; the templates of this module have none.
\<close>

datatype fmt_state = Text | Opened | Field string | Closed

fun format_run :: "(string \<rightharpoonup> string) \<Rightarrow> fmt_state \<Rightarrow> string \<Rightarrow> string option" where
  "format_run vars Text [] = Some []"
| "format_run vars Opened [] = None"
| "format_run vars (Field name) [] = None"
| "format_run vars Closed [] = None"
| "format_run vars Text (c # cs) =
     (if c = CHR ''{'' then format_run vars Opened cs
      else if c = CHR ''}'' then format_run vars Closed cs
      else map_option ((#) c) (format_run vars Text cs))"
| "format_run vars Opened (c # cs) =
     (if c = CHR ''{'' then map_option ((#) c) (format_run vars Text cs)
      else if c \<in> set ''}!:.['' then None
      else format_run vars (Field [c]) cs)"
| "format_run vars (Field name) (c # cs) =
     (if c = CHR ''}'' then
        (case vars name of
           None \<Rightarrow> None
         | Some v \<Rightarrow> map_option ((@) v) (format_run vars Text cs))
      else if c \<in> set ''{!:.['' then None
      else format_run vars (Field (name @ [c])) cs)"
| "format_run vars Closed (c # cs) =
     (if c = CHR ''}'' then map_option ((#) c) (format_run vars Text cs) else None)"

definition format_template :: "(string \<times> pyval) list \<Rightarrow> string \<Rightarrow> string option" where
  "format_template kwargs template =
     format_run (map_option py_str \<circ> map_of kwargs) Text template"

text \<open>\<open>system_message_content\<close>, with the parser's format instructions escaped.\<close>

definition system_message_content :: "'w libs \<Rightarrow> string" where
  "system_message_content L =
     ''You are a highly experienced and accurate hospital triage assistant. '' @
     ''Your task is to recommend the single most appropriate specialist department based on patient details. '' @
     ''The patient symptoms will be provided in Bahasa Indonesia. '' @
     ''Your response MUST be a JSON object with a single key 'recommended_department' and its value being the department name in English. '' @
     ''Adhere strictly to the following JSON schema:\<newline>'' @
     replace_char (CHR ''}'') ''}}'' (replace_char (CHR ''{'') ''{{'' (get_format_instructions L)) @
     ''\<newline>\<newline>'' @
     ''Example Output: {{'recommended_department': 'Neurology'}}\<newline>\<newline>'' @
     ''Consider common medical departments such as: Cardiology, Dentistry, Dermatology, General Medicine, Neurology, '' @
     ''Neurosurgery, Pathology, Plastic & Reconstruction Surgery, Psychiatry, Radiology, Rehabilitation Medicine, '' @
     ''Orthopaedics, Urology, Emergency, Obstetrics & Gynaecology, Pulmonology/Respiratory, Nephrology, Internal Medicine, '' @
     ''General Surgery, Ophthalmology, ENT (Ear, Nose, Throat), Paediatrics. '' @
     ''If a specific department isn't perfectly clear, choose the most general but appropriate one (e.g., Internal Medicine or Emergency).''"

definition human_message_template :: string where
  "human_message_template =
     ''Patient Gender: {gender}\<newline>'' @
     ''Patient Age: {age}\<newline>'' @
     ''Patient Symptoms (Bahasa Indonesia): {symptoms}\<newline>\<newline>'' @
     ''Based on this information, what is the recommended department?''"

text \<open>
  \<open>prompt\<close>: the two message templates, and their formatting with the chain's input. The
  result is the list of messages, each a role and its text. An exception of the formatter
  is a \<open>KeyError\<close> here.
\<close>

definition prompt :: "'w libs \<Rightarrow> (string \<times> string) list" where
  "prompt L = [(''system'', system_message_content L), (''human'', human_message_template)]"

fun format_messages :: "(string \<times> pyval) list \<Rightarrow> (string \<times> string) list \<Rightarrow> exn + (string \<times> string) list" where
  "format_messages kwargs [] = Inr []"
| "format_messages kwargs ((role, template) # ts) =
     (case format_template kwargs template of
        None \<Rightarrow> Inl (KeyError template)
      | Some content \<Rightarrow>
          (case format_messages kwargs ts of
             Inl e \<Rightarrow> Inl e
           | Inr ms \<Rightarrow> Inr ((role, content) # ms)))"

text \<open>
  \<open>recommendation_chain = prompt | llm | parser\<close>, invoked: each stage runs once on the
  result of the one before, and an exception of a stage ends the chain.
\<close>

definition recommendation_chain :: "'w libs \<Rightarrow> (string \<times> pyval) list \<Rightarrow> 'w \<Rightarrow> (exn + json) \<times> 'w" where
  "recommendation_chain L chain_input w =
     (case format_messages chain_input (prompt L) of
        Inl e \<Rightarrow> (Inl e, w)
      | Inr messages \<Rightarrow>
          (case llm_ainvoke L messages w of
             (Inl e, w') \<Rightarrow> (Inl e, w')
           | (Inr text, w') \<Rightarrow> (parser_parse L text, w')))"

section \<open>The handler\<close>

text \<open>
  A run of the handler: what it returns or raises, the lines it printed, and the state of
  the outside world after it.
\<close>

record 'w run =
  outcome :: "exn + DepartmentRecommendation"
  printed :: "string list"
  world :: 'w

text \<open>
  The dict \<open>chain_input\<close> and the body of the outer \<open>try\<close>. A \<open>ValidationError\<close> of the inner \<open>try\<close> is replaced there
  by an \<open>HTTPException\<close>, which is raised inside the outer \<open>try\<close>; any other exception of
  the constructor leaves the inner \<open>try\<close> as it is.
\<close>

definition chain_input :: "PatientInfo \<Rightarrow> (string \<times> pyval) list" where
  "chain_input patient_info =
     [(''gender'', PyStr (gender patient_info)),
      (''age'', PyInt (age patient_info)),
      (''symptoms'', PyStr (join '', '' (symptoms patient_info)))]"

definition try_body :: "'w libs \<Rightarrow> PatientInfo \<Rightarrow> 'w \<Rightarrow> (exn + DepartmentRecommendation) \<times> 'w" where
  "try_body L patient_info w =
     (case recommendation_chain L (chain_input patient_info) w of
        (Inl e, w') \<Rightarrow> (Inl e, w')
      | (Inr raw_response, w') \<Rightarrow>
          (case LLMDepartmentOutput_init L raw_response of
             Inl ve \<Rightarrow>
               (if is_ValidationError ve
                then (Inl (HTTPException 500 (''LLM response validation failed: '' @ exn_str L ve)), w')
                else (Inl ve, w'))
           | Inr llm_response \<Rightarrow>
               (Inr \<lparr>DepartmentRecommendation.recommended_department =
                       LLMDepartmentOutput.recommended_department llm_response\<rparr>, w')))"

text \<open>
  \<open>recommend_department\<close>: the \<open>try\<close> with its two \<open>except\<close> clauses, in the order of the
  source. An exception that is no \<open>Exception\<close> meets no clause and leaves the handler.
\<close>

definition recommend_department :: "'w libs \<Rightarrow> PatientInfo \<Rightarrow> 'w \<Rightarrow> 'w run" where
  "recommend_department L patient_info w =
     (case try_body L patient_info w of
        (Inr response, w') \<Rightarrow> \<lparr>outcome = Inr response, printed = [], world = w'\<rparr>
      | (Inl e, w') \<Rightarrow>
          (if is_OutputParserException e then
             \<lparr>outcome = Inl (HTTPException 500
                  (''LLM output could not be parsed. This often means the LLM did not return valid JSON or did not follow the schema. Error: '' @ exn_str L e)),
              printed = [''Output parsing error: '' @ exn_str L e],
              world = w'\<rparr>
           else if is_Exception e then
             \<lparr>outcome = Inl (HTTPException 500
                  (''An internal server error occurred: '' @ exn_str L e @ ''. Please check the server logs. '' @
                   ''Ensure the correct LLM model ID is specified and your API key is valid.'')),
              printed = [''General error during recommendation process: '' @ exn_str L e],
              world = w'\<rparr>
           else \<lparr>outcome = Inl e, printed = [], world = w'\<rparr>))"

section \<open>Start-up of the module\<close>

text \<open>
  The process environment, read by \<open>os.getenv\<close>: a name has a value or none.
  \<open>load_dotenv\<close> (python-dotenv) changes the environment from a file; it is a parameter.
\<close>

type_synonym environ = "string \<rightharpoonup> string"

text \<open>Truth of \<open>GOOGLE_API_KEY\<close> in \<open>if not GOOGLE_API_KEY\<close>: \<open>None\<close> and the empty str are false.\<close>

definition truthy :: "string option \<Rightarrow> bool" where
  "truthy v = (case v of None \<Rightarrow> False | Some s \<Rightarrow> s \<noteq> [])"

text \<open>
  The names of the module that matter after start-up: the key, and the FastAPI
  application with its routes (method and path), \<open>None\<close> while \<open>app\<close> is not yet bound.
\<close>

record module_state =
  GOOGLE_API_KEY :: "string option"
  app :: "(string \<times> string) list option"

text \<open>
  The statements of the module in their order: load the environment, read the key, raise
  when it is not true, build parser, model, prompt and chain (\<open>build_chain\<close>: library
  constructors, which may raise), then create the application and register the route.
  The result is the exception that ended the import, if any, and the names bound so far.
\<close>

definition module_init :: "(environ \<Rightarrow> environ) \<Rightarrow> (string option \<Rightarrow> exn option) \<Rightarrow> environ \<Rightarrow> exn option \<times> module_state" where
  "module_init load_dotenv build_chain environ =
     (let key = (load_dotenv environ) ''GOOGLE_API_KEY'';
          bound = \<lparr>GOOGLE_API_KEY = key, app = None\<rparr>
      in if \<not> truthy key then
           (Some (ValueError (''GOOGLE_API_KEY not found in environment variables. '' @
                              ''Please ensure it's set in a .env file or as an environment variable.'')),
            bound)
         else
           (case build_chain key of
              Some e \<Rightarrow> (Some e, bound)
            | None \<Rightarrow> (None, bound\<lparr>app := Some [(''POST'', ''/recommend'')]\<rparr>)))"

text \<open>
  A server serves a route of the module when the import ended without an exception and
  the application has the route.
\<close>

definition serves :: "exn option \<times> module_state \<Rightarrow> string \<Rightarrow> string \<Rightarrow> bool" where
  "serves started method path =
     (fst started = None \<and>
      (case app (snd started) of
         None \<Rightarrow> False
       | Some routes \<Rightarrow> (method, path) \<in> set routes))"

section \<open>The messages the model receives\<close>

text \<open>
  What the formatted prompt should be, written out: the system message with the format
  instructions as the parser gives them and \<open>{{\<close> read as \<open>{\<close>, and the human message
  with gender, age and the joined symptoms in their places. The lemmas below show that the
  formatter makes exactly these from the templates.
\<close>

definition system_text :: "'w libs \<Rightarrow> string" where
  "system_text L =
     ''You are a highly experienced and accurate hospital triage assistant. '' @
     ''Your task is to recommend the single most appropriate specialist department based on patient details. '' @
     ''The patient symptoms will be provided in Bahasa Indonesia. '' @
     ''Your response MUST be a JSON object with a single key 'recommended_department' and its value being the department name in English. '' @
     ''Adhere strictly to the following JSON schema:\<newline>'' @
     get_format_instructions L @
     ''\<newline>\<newline>'' @
     ''Example Output: {'recommended_department': 'Neurology'}\<newline>\<newline>'' @
     ''Consider common medical departments such as: Cardiology, Dentistry, Dermatology, General Medicine, Neurology, '' @
     ''Neurosurgery, Pathology, Plastic & Reconstruction Surgery, Psychiatry, Radiology, Rehabilitation Medicine, '' @
     ''Orthopaedics, Urology, Emergency, Obstetrics & Gynaecology, Pulmonology/Respiratory, Nephrology, Internal Medicine, '' @
     ''General Surgery, Ophthalmology, ENT (Ear, Nose, Throat), Paediatrics. '' @
     ''If a specific department isn't perfectly clear, choose the most general but appropriate one (e.g., Internal Medicine or Emergency).''"

definition human_text :: "PatientInfo \<Rightarrow> string" where
  "human_text patient_info =
     ''Patient Gender: '' @ gender patient_info @ ''\<newline>'' @
     ''Patient Age: '' @ str_int (age patient_info) @ ''\<newline>'' @
     ''Patient Symptoms (Bahasa Indonesia): '' @ join '', '' (symptoms patient_info) @ ''\<newline>\<newline>'' @
     ''Based on this information, what is the recommended department?''"

section \<open>A scripted model for examples\<close>

text \<open>
  Libraries for concrete runs: the model answers every call with \<open>answer\<close> and the parser
  reads every text as \<open>parsed\<close>. The outside world is the number of calls of the model.
\<close>

definition scripted_libs :: "exn + string \<Rightarrow> exn + json \<Rightarrow> nat libs" where
  "scripted_libs answer parsed =
     \<lparr>get_format_instructions = ''Return JSON of the form {recommended_department: string}.'',
      llm_ainvoke = (\<lambda>messages n. (answer, Suc n)),
      parser_parse = (\<lambda>text. parsed),
      validation_error_str = (\<lambda>kwargs. ''1 validation error for LLMDepartmentOutput''),
      mapping_error_str = (\<lambda>v. ''argument after ** must be a mapping''),
      http_exception_str = (\<lambda>c d. str_int c @ '': '' @ d)\<rparr>"

definition example_patient :: PatientInfo where
  "example_patient = \<lparr>gender = ''female'', age = 62, symptoms = [''pusing'', ''mual'', ''sulit berjalan'']\<rparr>"

section \<open>Recorded calls and a process that serves requests\<close>


text \<open>
  A process after start-up: the names of the module and the world outside. It serves
  requests one after the other; each is a run of the handler in the world the one before
  left, and gives what the handler returned or raised and the lines it printed. The
  handler is given the request and the outside world, and no name of the module to assign.
\<close>

record 'w process =
  names :: module_state
  outside :: 'w


section \<open>The formatter on the templates of the module\<close>

lemma format_run_escaped:
  "format_run vars Text (replace_char (CHR ''}'') ''}}'' (replace_char (CHR ''{'') ''{{'' s) @ t)
     = map_option ((@) s) (format_run vars Text t)"
proof (induction s)
  case Nil
  show ?case by (simp add: replace_char_def option.map_ident)
next
  case (Cons c s)
  then show ?case
    by (cases "format_run vars Text t") (auto simp: replace_char_def)
qed

lemma format_run_plain:
  "CHR ''{'' \<notin> set p \<Longrightarrow> CHR ''}'' \<notin> set p \<Longrightarrow>
   format_run vars Text (p @ t) = map_option ((@) p) (format_run vars Text t)"
proof (induction p)
  case Nil
  show ?case by (cases "format_run vars Text t") simp_all
next
  case (Cons c p)
  then show ?case by (cases "format_run vars Text t") auto
qed

lemma format_run_plain_end:
  "CHR ''{'' \<notin> set p \<Longrightarrow> CHR ''}'' \<notin> set p \<Longrightarrow> format_run vars Text p = Some p"
  using format_run_plain [of p vars "[]"] by simp

lemma format_run_example:
  "format_run vars Text (''Example Output: {{'recommended_department': 'Neurology'}}\<newline>\<newline>'' @ t)
     = map_option ((@) ''Example Output: {'recommended_department': 'Neurology'}\<newline>\<newline>'')
         (format_run vars Text t)"
  by (cases "format_run vars Text t") simp_all

lemma system_formatted:
  "format_template kwargs (system_message_content L) = Some (system_text L)"
  unfolding format_template_def system_message_content_def system_text_def
  by (simp add: format_run_plain format_run_plain_end format_run_escaped format_run_example
        del: append_Cons append_Nil format_run.simps)

lemma human_formatted:
  "format_template (chain_input patient_info) human_message_template = Some (human_text patient_info)"
  by (simp add: format_template_def human_message_template_def chain_input_def human_text_def)

lemma format_messages_prompt:
  "format_messages (chain_input patient_info) (prompt L)
     = Inr [(''system'', system_text L), (''human'', human_text patient_info)]"
  by (simp add: prompt_def system_formatted human_formatted)

text \<open>So the prompt stage never raises, and the chain is the model call and the parser.\<close>

lemma recommendation_chain_unfold:
  "recommendation_chain L (chain_input patient_info) w =
     (case llm_ainvoke L [(''system'', system_text L), (''human'', human_text patient_info)] w of
        (Inl e, w') \<Rightarrow> (Inl e, w')
      | (Inr text, w') \<Rightarrow> (parser_parse L text, w'))"
  by (simp add: recommendation_chain_def format_messages_prompt)

lemma scripted_chain:
  "recommendation_chain (scripted_libs answer parsed) (chain_input patient_info) n =
     (case answer of Inl e \<Rightarrow> (Inl e, Suc n) | Inr text \<Rightarrow> (parsed, Suc n))"
  by (simp add: recommendation_chain_unfold scripted_libs_def split: sum.splits)

lemma example_human_text:
  "human_text example_patient =
     ''Patient Gender: female\<newline>Patient Age: 62\<newline>'' @
     ''Patient Symptoms (Bahasa Indonesia): pusing, mual, sulit berjalan\<newline>\<newline>'' @
     ''Based on this information, what is the recommended department?''"
  by (simp add: human_text_def example_patient_def str_int_def str_nat.simps)

section \<open>The handler: what it returns and what it raises\<close>

lemma LLMDepartmentOutput_init_raises:
  "LLMDepartmentOutput_init L raw_response = Inl e \<Longrightarrow>
     (\<exists>m. e = ValidationError m) \<or> (\<exists>m. e = TypeError m)"
  by (auto simp: LLMDepartmentOutput_init_def split: json.splits option.splits)


section \<open>Recorded runs and served requests\<close>












section \<open>Claims about the handler\<close>

text \<open>
  C1. When the chain returns a JSON object whose field \<open>recommended_department\<close> is a
  string (other keys may be there too), the handler returns a \<open>DepartmentRecommendation\<close>
  holding that same string, and the body sent for it is the object with the one key
  \<open>recommended_department\<close> and that string.
\<close>

theorem recommend_department_returns_llm_string:
  assumes "fst (recommendation_chain L (chain_input patient_info) w) = Inr (JObject kwargs)"
      and "map_of kwargs ''recommended_department'' = Some (JString s)"
  shows "outcome (recommend_department L patient_info w)
           = Inr \<lparr>DepartmentRecommendation.recommended_department = s\<rparr>
       \<and> map_sum id model_dump (outcome (recommend_department L patient_info w))
           = Inr (JObject [(''recommended_department'', JString s)])"
  using assms
  by (cases "recommendation_chain L (chain_input patient_info) w")
     (simp add: recommend_department_def try_body_def LLMDepartmentOutput_init_def model_dump_def)

theorem recommend_department_returns_llm_string_witness:
  "fst (recommendation_chain
          (scripted_libs (Inr ''{'recommended_department': 'Neurology', 'note': 7}'')
             (Inr (JObject [(''recommended_department'', JString ''Neurology''), (''note'', JInt 7)])))
          (chain_input example_patient) 0)
     = Inr (JObject [(''recommended_department'', JString ''Neurology''), (''note'', JInt 7)])
   \<and> map_of [(''recommended_department'', JString ''Neurology''), (''note'', JInt 7)]
        ''recommended_department''
     = Some (JString ''Neurology'')
   \<and> outcome (recommend_department
          (scripted_libs (Inr ''{'recommended_department': 'Neurology', 'note': 7}'')
             (Inr (JObject [(''recommended_department'', JString ''Neurology''), (''note'', JInt 7)])))
          example_patient 0)
     = Inr \<lparr>DepartmentRecommendation.recommended_department = ''Neurology''\<rparr>
   \<and> map_sum id model_dump (outcome (recommend_department
          (scripted_libs (Inr ''{'recommended_department': 'Neurology', 'note': 7}'')
             (Inr (JObject [(''recommended_department'', JString ''Neurology''), (''note'', JInt 7)])))
          example_patient 0))
     = Inr (JObject [(''recommended_department'', JString ''Neurology'')])"
proof -
  let ?kw = "[(''recommended_department'', JString ''Neurology''), (''note'', JInt 7)]"
  let ?L = "scripted_libs (Inr ''{'recommended_department': 'Neurology', 'note': 7}'') (Inr (JObject ?kw))"
  have h1: "fst (recommendation_chain ?L (chain_input example_patient) 0) = Inr (JObject ?kw)"
    by (simp add: scripted_chain)
  have h2: "map_of ?kw ''recommended_department'' = Some (JString ''Neurology'')"
    by simp
  from recommend_department_returns_llm_string [OF h1 h2] h1 h2 show ?thesis
    by (simp add: model_dump_def)
qed

text \<open>
  C2. When the chain raises \<open>OutputParserException\<close> (the parser could not read the
  model's text as JSON), the handler raises \<open>HTTPException\<close> with status 500, and the
  detail says that the LLM output could not be parsed, followed by the parser's message.
\<close>

theorem parse_failure_is_http_500:
  assumes "fst (recommendation_chain L (chain_input patient_info) w) = Inl (OutputParserException m)"
  shows "outcome (recommend_department L patient_info w)
           = Inl (HTTPException 500
               (''LLM output could not be parsed. This often means the LLM did not return valid JSON or did not follow the schema. Error: '' @ m))"
  using assms
  by (cases "recommendation_chain L (chain_input patient_info) w")
     (simp add: recommend_department_def try_body_def)

theorem parse_failure_is_http_500_witness:
  "fst (recommendation_chain
          (scripted_libs (Inr ''Neurology, I think'') (Inl (OutputParserException ''Invalid json output: Neurology, I think'')))
          (chain_input example_patient) 0)
     = Inl (OutputParserException ''Invalid json output: Neurology, I think'')
   \<and> outcome (recommend_department
          (scripted_libs (Inr ''Neurology, I think'') (Inl (OutputParserException ''Invalid json output: Neurology, I think'')))
          example_patient 0)
     = Inl (HTTPException 500
         (''LLM output could not be parsed. This often means the LLM did not return valid JSON or did not follow the schema. Error: '' @
          ''Invalid json output: Neurology, I think''))"
proof -
  let ?L = "scripted_libs (Inr ''Neurology, I think'') (Inl (OutputParserException ''Invalid json output: Neurology, I think''))"
  have h: "fst (recommendation_chain ?L (chain_input example_patient) 0)
             = Inl (OutputParserException ''Invalid json output: Neurology, I think'')"
    by (simp add: scripted_chain)
  from parse_failure_is_http_500 [OF h] h show ?thesis by simp
qed

text \<open>
  C3. When the chain returns a JSON object in which \<open>recommended_department\<close> is missing
  or is not a string, the handler raises \<open>HTTPException\<close> with status 500.
\<close>

theorem missing_field_is_http_500:
  assumes "fst (recommendation_chain L (chain_input patient_info) w) = Inr (JObject kwargs)"
      and "\<forall>s. map_of kwargs ''recommended_department'' \<noteq> Some (JString s)"
  shows "\<exists>detail. outcome (recommend_department L patient_info w) = Inl (HTTPException 500 detail)"
  using assms
  by (cases "recommendation_chain L (chain_input patient_info) w")
     (auto simp: recommend_department_def try_body_def LLMDepartmentOutput_init_def
           split: option.splits json.splits)

theorem missing_field_is_http_500_witness:
  "map_of [(''department'', JString ''Neurology'')] ''recommended_department'' = None
   \<and> (\<exists>detail. outcome (recommend_department
          (scripted_libs (Inr ''{'department': 'Neurology'}'') (Inr (JObject [(''department'', JString ''Neurology'')])))
          example_patient 0) = Inl (HTTPException 500 detail))
   \<and> map_of [(''recommended_department'', JInt 7)] ''recommended_department'' = Some (JInt 7)
   \<and> (\<exists>detail. outcome (recommend_department
          (scripted_libs (Inr ''{'recommended_department': 7}'') (Inr (JObject [(''recommended_department'', JInt 7)])))
          example_patient 0) = Inl (HTTPException 500 detail))"
proof -
  let ?k1 = "[(''department'', JString ''Neurology'')]"
  let ?L1 = "scripted_libs (Inr ''{'department': 'Neurology'}'') (Inr (JObject ?k1))"
  let ?k2 = "[(''recommended_department'', JInt 7)]"
  let ?L2 = "scripted_libs (Inr ''{'recommended_department': 7}'') (Inr (JObject ?k2))"
  have a1: "fst (recommendation_chain ?L1 (chain_input example_patient) 0) = Inr (JObject ?k1)"
    by (simp add: scripted_chain)
  have a2: "\<forall>s. map_of ?k1 ''recommended_department'' \<noteq> Some (JString s)"
    by simp
  have b1: "fst (recommendation_chain ?L2 (chain_input example_patient) 0) = Inr (JObject ?k2)"
    by (simp add: scripted_chain)
  have b2: "\<forall>s. map_of ?k2 ''recommended_department'' \<noteq> Some (JString s)"
    by simp
  from missing_field_is_http_500 [OF a1 a2] missing_field_is_http_500 [OF b1 b2]
  show ?thesis by simp
qed

text \<open>
  C4, as amended. Every failure of the handler whose cause is an instance of
  \<open>Exception\<close> (the parser's exception, the failed schema validation, or any other
  \<open>Exception\<close> raised while the chain runs) is an \<open>HTTPException\<close> with status code 500,
  and no other code. (For every cause the claim fails: see the counterexample below.)
\<close>

theorem every_failure_is_http_500:
  assumes "outcome (recommend_department L patient_info w) = Inl e"
      and "case fst (recommendation_chain L (chain_input patient_info) w) of
             Inl x \<Rightarrow> is_Exception x
           | Inr raw_response \<Rightarrow> True"
  shows "\<exists>detail. e = HTTPException 500 detail"
proof (cases "recommendation_chain L (chain_input patient_info) w")
  case (Pair r w')
  show ?thesis
  proof (cases r)
    case (Inl x)
    with Pair assms show ?thesis
      by (auto simp: recommend_department_def try_body_def split: if_splits)
  next
    case (Inr raw_response)
    show ?thesis
    proof (cases "LLMDepartmentOutput_init L raw_response")
      case (Inl ve)
      from LLMDepartmentOutput_init_raises [OF Inl] Pair Inr Inl assms(1) show ?thesis
        by (auto simp: recommend_department_def try_body_def)
    next
      case (Inr llm_response)
      with Pair \<open>r = Inr raw_response\<close> assms(1) show ?thesis
        by (simp add: recommend_department_def try_body_def)
    qed
  qed
qed

theorem every_failure_is_http_500_witness:
  "outcome (recommend_department
      (scripted_libs (Inl (OtherException ''429 quota exceeded'')) (Inr JNull)) example_patient 0)
     = Inl (HTTPException 500
         (''An internal server error occurred: 429 quota exceeded. Please check the server logs. '' @
          ''Ensure the correct LLM model ID is specified and your API key is valid.''))
   \<and> (case fst (recommendation_chain
          (scripted_libs (Inl (OtherException ''429 quota exceeded'')) (Inr JNull))
          (chain_input example_patient) 0) of
         Inl x \<Rightarrow> is_Exception x
       | Inr raw_response \<Rightarrow> True)
   \<and> (\<exists>detail. HTTPException 500
         (''An internal server error occurred: 429 quota exceeded. Please check the server logs. '' @
          ''Ensure the correct LLM model ID is specified and your API key is valid.'')
        = HTTPException 500 detail)"
proof -
  let ?L = "scripted_libs (Inl (OtherException ''429 quota exceeded'')) (Inr JNull)"
  have h1: "outcome (recommend_department ?L example_patient 0)
     = Inl (HTTPException 500
         (''An internal server error occurred: 429 quota exceeded. Please check the server logs. '' @
          ''Ensure the correct LLM model ID is specified and your API key is valid.''))"
    by (simp add: recommend_department_def try_body_def scripted_chain)
  have h2: "case fst (recommendation_chain ?L (chain_input example_patient) 0) of
         Inl x \<Rightarrow> is_Exception x
       | Inr raw_response \<Rightarrow> True"
    by (simp add: scripted_chain)
  from every_failure_is_http_500 [OF h1 h2] h1 h2 show ?thesis by blast
qed

text \<open>
  C4 as it is stated, for every cause, does not hold: \<open>except Exception\<close> does not catch
  an exception that is only a \<open>BaseException\<close>. When the awaited chain call is cancelled,
  \<open>asyncio.CancelledError\<close> leaves the handler as it is, and no \<open>HTTPException\<close> is raised.
\<close>

theorem non_exception_passes_through_counterexample:
  "outcome (recommend_department
      (scripted_libs (Inl (NonException ''asyncio.CancelledError'')) (Inr JNull)) example_patient 0)
     = Inl (NonException ''asyncio.CancelledError'')"
  by (simp add: recommend_department_def try_body_def scripted_chain)



text \<open>
  C7. The department is free text: whatever string the parsed answer holds under
  \<open>recommended_department\<close>, the handler returns it as it is. Nothing compares it with a
  list of departments, and the empty string is returned like any other.
\<close>

theorem any_department_string_is_returned:
  "outcome (recommend_department
      (L\<lparr>llm_ainvoke := \<lambda>messages w'. (Inr text, w'),
         parser_parse := \<lambda>t. Inr (JObject [(''recommended_department'', JString s)])\<rparr>)
      patient_info w)
     = Inr \<lparr>DepartmentRecommendation.recommended_department = s\<rparr>
   \<and> outcome (recommend_department
      (scripted_libs (Inr ''an answer with an empty department'')
         (Inr (JObject [(''recommended_department'', JString [])])))
      example_patient 0)
     = Inr \<lparr>DepartmentRecommendation.recommended_department = []\<rparr>"
proof
  show "outcome (recommend_department
      (L\<lparr>llm_ainvoke := \<lambda>messages w'. (Inr text, w'),
         parser_parse := \<lambda>t. Inr (JObject [(''recommended_department'', JString s)])\<rparr>)
      patient_info w)
     = Inr \<lparr>DepartmentRecommendation.recommended_department = s\<rparr>"
    by (simp add: recommend_department_def try_body_def recommendation_chain_unfold
          LLMDepartmentOutput_init_def)
  show "outcome (recommend_department
      (scripted_libs (Inr ''an answer with an empty department'')
         (Inr (JObject [(''recommended_department'', JString [])])))
      example_patient 0)
     = Inr \<lparr>DepartmentRecommendation.recommended_department = []\<rparr>"
    by (simp add: recommend_department_def try_body_def scripted_chain
          LLMDepartmentOutput_init_def)
qed



text \<open>
  C10. The detail "LLM response validation failed" never reaches the client as the
  detail of the response. The \<open>HTTPException\<close> of the inner handler is an \<open>Exception\<close>, so
  the outer \<open>except Exception\<close> catches it: for every answer that fails the schema the
  handler raises the generic "An internal server error occurred" detail with status 500,
  which holds the string of the inner exception.
\<close>

theorem validation_detail_is_replaced_by_generic_detail:
  assumes "fst (recommendation_chain L (chain_input patient_info) w) = Inr (JObject kwargs)"
      and "\<forall>s. map_of kwargs ''recommended_department'' \<noteq> Some (JString s)"
  shows "outcome (recommend_department L patient_info w)
           = Inl (HTTPException 500
               (''An internal server error occurred: '' @
                http_exception_str L 500 (''LLM response validation failed: '' @ validation_error_str L kwargs) @
                ''. Please check the server logs. '' @
                ''Ensure the correct LLM model ID is specified and your API key is valid.''))
       \<and> outcome (recommend_department L patient_info w)
           \<noteq> Inl (HTTPException 500 (''LLM response validation failed: '' @ validation_error_str L kwargs))"
  using assms
  by (cases "recommendation_chain L (chain_input patient_info) w")
     (auto simp: recommend_department_def try_body_def LLMDepartmentOutput_init_def
           split: option.splits json.splits)

theorem validation_detail_is_replaced_by_generic_detail_witness:
  "fst (recommendation_chain
          (scripted_libs (Inr ''{'department': 'Neurology'}'') (Inr (JObject [(''department'', JString ''Neurology'')])))
          (chain_input example_patient) 0)
     = Inr (JObject [(''department'', JString ''Neurology'')])
   \<and> map_of [(''department'', JString ''Neurology'')] ''recommended_department'' = None
   \<and> outcome (recommend_department
          (scripted_libs (Inr ''{'department': 'Neurology'}'') (Inr (JObject [(''department'', JString ''Neurology'')])))
          example_patient 0)
     = Inl (HTTPException 500
         (''An internal server error occurred: 500: LLM response validation failed: '' @
          ''1 validation error for LLMDepartmentOutput. Please check the server logs. '' @
          ''Ensure the correct LLM model ID is specified and your API key is valid.''))"
proof -
  let ?k = "[(''department'', JString ''Neurology'')]"
  let ?L = "scripted_libs (Inr ''{'department': 'Neurology'}'') (Inr (JObject ?k))"
  have h1: "fst (recommendation_chain ?L (chain_input example_patient) 0) = Inr (JObject ?k)"
    by (simp add: scripted_chain)
  have h2: "\<forall>s. map_of ?k ''recommended_department'' \<noteq> Some (JString s)"
    by simp
  from validation_detail_is_replaced_by_generic_detail [OF h1 h2] h1 show ?thesis
    by (simp add: scripted_libs_def str_int_def str_nat.simps)
qed

section \<open>Claims about start-up\<close>

text \<open>
  C5. When \<open>GOOGLE_API_KEY\<close> has no value at start-up (after \<open>load_dotenv\<close>, when the
  module reads it), the import of the module ends with a \<open>ValueError\<close> before \<open>app\<close> is
  bound: there is no application, and no route of the module is served.
\<close>

theorem missing_key_prevents_start:
  assumes "(load_dotenv environ) ''GOOGLE_API_KEY'' = None"
  shows "fst (module_init load_dotenv build_chain environ)
           = Some (ValueError (''GOOGLE_API_KEY not found in environment variables. '' @
                               ''Please ensure it's set in a .env file or as an environment variable.''))
       \<and> app (snd (module_init load_dotenv build_chain environ)) = None
       \<and> \<not> serves (module_init load_dotenv build_chain environ) method path"
  using assms by (simp add: module_init_def truthy_def serves_def)

theorem missing_key_prevents_start_witness:
  "((\<lambda>env. env) [''PATH'' \<mapsto> ''/usr/bin'']) ''GOOGLE_API_KEY'' = None
   \<and> fst (module_init (\<lambda>env. env) (\<lambda>key. None) [''PATH'' \<mapsto> ''/usr/bin''])
       = Some (ValueError (''GOOGLE_API_KEY not found in environment variables. '' @
                           ''Please ensure it's set in a .env file or as an environment variable.''))
   \<and> app (snd (module_init (\<lambda>env. env) (\<lambda>key. None) [''PATH'' \<mapsto> ''/usr/bin''])) = None
   \<and> \<not> serves (module_init (\<lambda>env. env) (\<lambda>key. None) [''PATH'' \<mapsto> ''/usr/bin'']) ''POST'' ''/recommend''"
proof -
  have h: "((\<lambda>env. env) [''PATH'' \<mapsto> ''/usr/bin'']) ''GOOGLE_API_KEY'' = None"
    by simp
  from missing_key_prevents_start [of "\<lambda>env. env" "[''PATH'' \<mapsto> ''/usr/bin'']" "\<lambda>key. None" "''POST''" "''/recommend''", OF h] h
  show ?thesis by simp
qed

text \<open>
  C9. A key that is set to the empty string is handled like a key that is not set: the
  check is \<open>not GOOGLE_API_KEY\<close>, so the import ends with the same \<open>ValueError\<close> and
  nothing is served.
\<close>

theorem empty_key_is_treated_as_missing:
  assumes "(load_dotenv environ) ''GOOGLE_API_KEY'' = Some []"
  shows "fst (module_init load_dotenv build_chain environ)
           = Some (ValueError (''GOOGLE_API_KEY not found in environment variables. '' @
                               ''Please ensure it's set in a .env file or as an environment variable.''))
       \<and> fst (module_init load_dotenv build_chain environ)
           = fst (module_init (\<lambda>env. env(''GOOGLE_API_KEY'' := None)) build_chain environ)
       \<and> \<not> serves (module_init load_dotenv build_chain environ) method path"
  using assms by (simp add: module_init_def truthy_def serves_def)

theorem empty_key_is_treated_as_missing_witness:
  "((\<lambda>env. env) [''GOOGLE_API_KEY'' \<mapsto> []]) ''GOOGLE_API_KEY'' = Some []
   \<and> fst (module_init (\<lambda>env. env) (\<lambda>key. None) [''GOOGLE_API_KEY'' \<mapsto> []])
       = Some (ValueError (''GOOGLE_API_KEY not found in environment variables. '' @
                           ''Please ensure it's set in a .env file or as an environment variable.''))
   \<and> \<not> serves (module_init (\<lambda>env. env) (\<lambda>key. None) [''GOOGLE_API_KEY'' \<mapsto> []]) ''POST'' ''/recommend''"
proof -
  have h: "((\<lambda>env. env) [''GOOGLE_API_KEY'' \<mapsto> []]) ''GOOGLE_API_KEY'' = Some []"
    by simp
  from empty_key_is_treated_as_missing [of "\<lambda>env. env" "[''GOOGLE_API_KEY'' \<mapsto> []]" "\<lambda>key. None" "''POST''" "''/recommend''", OF h] h
  show ?thesis by simp
qed

end
